theory Spec2Isabelle
  imports Complex_Main "HOL-Library.Word"
begin

section \<open>Data model of the Convex decoder\<close>

text \<open>
  The module \<^verbatim>\<open>rotkehlchen/chain/ethereum/modules/convex/decoder.py\<close> rewrites history
  events in place. Python objects become records, the in-place mutation becomes state
  passing (the rule returns the events as they are after the call), and every raise of the
  source is a value of \<open>outcome\<close>.
\<close>

type_synonym bytes = "8 word list"
type_synonym address = string

text \<open>Only the members the module names are listed; every other member of the two
  enumerations is a value of the last constructor.\<close>

datatype HistoryEventType = SPEND | RECEIVE | DEPOSIT | WITHDRAWAL | OTHER_TYPE string

datatype HistoryEventSubType = NONE | RETURN_WRAPPED | REWARD | OTHER_SUBTYPE string

datatype asset_error = UnknownAsset | WrongAssetType

datatype py_error = IndexError | AssetError asset_error

datatype 'a outcome = Returned 'a | Raised py_error

datatype DecodingOutput = DEFAULT_DECODING_OUTPUT

datatype TransferEnrichmentOutput = DEFAULT_ENRICHMENT_OUTPUT

record CryptoAsset =
  symbol :: string
  decimals :: nat

text \<open>\<open>balance_amount\<close> is \<^verbatim>\<open>event.balance.amount\<close>, an \<^verbatim>\<open>FVal\<close>: a decimal number
  compared by value, here a rational. \<open>asset\<close> is the asset's identifier.\<close>

record HistoryEvent =
  event_type :: HistoryEventType
  event_subtype :: HistoryEventSubType
  asset :: string
  balance_amount :: rat
  address :: "address option"
  location_label :: "string option"
  event_notes :: "string option"
  counterparty :: "string option"

record EvmTxReceiptLog =
  log_address :: address
  topics :: "bytes list"
  data :: bytes

record EvmTransaction =
  from_address :: address

record Context =
  tx_log :: EvmTxReceiptLog
  transaction :: EvmTransaction

record DecoderContext = Context +
  decoded_events :: "HistoryEvent list"

record EnricherContext = Context +
  event :: HistoryEvent

text \<open>
  What the module imports and this development does not define: the constants of
  \<^verbatim>\<open>convex/constants.py\<close>, \<^verbatim>\<open>ZERO_ADDRESS\<close>, \<^verbatim>\<open>ERC20_OR_ERC721_TRANSFER\<close>, the asset
  resolver behind \<^verbatim>\<open>event.asset.resolve_to_crypto_asset()\<close> (which raises
  \<^verbatim>\<open>UnknownAsset\<close> or \<^verbatim>\<open>WrongAssetType\<close>, or returns the asset),
  \<^verbatim>\<open>hex_or_bytes_to_address\<close> and the rendering of an \<^verbatim>\<open>FVal\<close> inside an f-string.
  They are parameters: every theorem below holds for each value of them.
\<close>

record convex_env =
  ZERO_ADDRESS :: address
  CPT_CONVEX :: string
  CONVEX_POOLS :: "address \<rightharpoonup> string"
  WITHDRAWAL_TOPICS :: "bytes set"
  REWARD_TOPICS :: "bytes set"
  CONVEX_ABRAS_HEX :: "bytes set"
  ERC20_OR_ERC721_TRANSFER :: bytes
  resolve_to_crypto_asset :: "string \<Rightarrow> asset_error + CryptoAsset"
  hex_or_bytes_to_address :: "bytes \<Rightarrow> address"
  fval_str :: "rat \<Rightarrow> string"

text \<open>A call of \<^verbatim>\<open>self.notify_user(event=event, counterparty=CPT_CONVEX)\<close>.\<close>

type_synonym notification = "HistoryEvent \<times> string"

section \<open>Helpers the decoder calls\<close>

text \<open>Modelled from the spec: \<^verbatim>\<open>hex_or_bytes_to_int\<close> of \<^verbatim>\<open>rotkehlchen.utils.misc\<close> is not
  among the sources; the spec reads the log's amount as a big-endian unsigned integer.\<close>

definition hex_or_bytes_to_int :: "bytes \<Rightarrow> int" where
  "hex_or_bytes_to_int bs = foldl (\<lambda>acc b. 256 * acc + uint b) 0 bs"

text \<open>Modelled from the spec: \<^verbatim>\<open>asset_normalized_value\<close> of
  \<^verbatim>\<open>rotkehlchen.chain.ethereum.utils\<close> is not among the sources; the spec's amount
  normalizer converts a raw integer in base units and the asset's decimal count into the
  human-scale amount.\<close>

definition asset_normalized_value :: "int \<Rightarrow> CryptoAsset \<Rightarrow> rat" where
  "asset_normalized_value amount_raw crypto_asset =
     of_int amount_raw / 10 ^ decimals crypto_asset"

text \<open>
  The values the chained comparison of the decoder ranges over: \<^verbatim>\<open>location_label\<close> is
  an optional string, the two addresses are strings, and the chain ends in the object
  \<^verbatim>\<open>False\<close>.
\<close>

datatype pyval = PyNone | PyBool bool | PyStr string

definition py_of_label :: "string option \<Rightarrow> pyval" where
  "py_of_label l = (case l of None \<Rightarrow> PyNone | Some s \<Rightarrow> PyStr s)"

definition py_is_False :: "pyval \<Rightarrow> bool" where
  "py_is_False v = (v = PyBool False)"

text \<open>
  \<^verbatim>\<open>event.location_label == context.transaction.from_address == interacted_address is False\<close>.
  Python chains comparison operators, \<^verbatim>\<open>is\<close> among them: the expression is
  \<^verbatim>\<open>a == b and b == c and c is False\<close>.
\<close>

definition acting_party_clause :: "string option \<Rightarrow> address \<Rightarrow> address \<Rightarrow> bool" where
  "acting_party_clause label from_addr interacted_address =
     (let a = py_of_label label; b = PyStr from_addr; c = PyStr interacted_address
      in a = b \<and> b = c \<and> py_is_False c)"

text \<open>The two shapes of every note: with the pool's name when the log's emitter is a key
  of \<^verbatim>\<open>CONVEX_POOLS\<close>, without it otherwise.\<close>

definition convex_note ::
  "convex_env \<Rightarrow> address \<Rightarrow> string \<Rightarrow> HistoryEvent \<Rightarrow> CryptoAsset \<Rightarrow> string \<Rightarrow> string" where
  "convex_note env emitter verb ev crypto_asset tail =
     (case CONVEX_POOLS env emitter of
        Some pool \<Rightarrow>
          verb @ '' '' @ fval_str env (balance_amount ev) @ '' '' @ symbol crypto_asset
            @ '' '' @ tail @ '' '' @ pool @ '' pool''
      | None \<Rightarrow>
          verb @ '' '' @ fval_str env (balance_amount ev) @ '' '' @ symbol crypto_asset
            @ '' '' @ tail)"

section \<open>The decoder rule\<close>

text \<open>The body of the loop of \<^verbatim>\<open>_decode_convex_events\<close> for one event: the event as the
  iteration leaves it, and the notifications the iteration sends.\<close>

definition decode_event ::
  "convex_env \<Rightarrow> EvmTxReceiptLog \<Rightarrow> EvmTransaction \<Rightarrow> int \<Rightarrow> address \<Rightarrow> HistoryEvent
     \<Rightarrow> HistoryEvent \<times> notification list" where
  "decode_event env lg tx amount_raw interacted_address ev =
     (case resolve_to_crypto_asset env (asset ev) of
        Inl _ \<Rightarrow> (ev, [(ev, CPT_CONVEX env)])
      | Inr crypto_asset \<Rightarrow>
          (let amount = asset_normalized_value amount_raw crypto_asset in
           if acting_party_clause (location_label ev) (from_address tx) interacted_address \<or>
              (address ev \<noteq> Some (ZERO_ADDRESS env) \<and> balance_amount ev \<noteq> amount)
           then (ev, [])
           else if event_type ev = SPEND \<and> event_subtype ev = NONE then
             (if address ev = Some (ZERO_ADDRESS env) then
                (ev\<lparr>event_subtype := RETURN_WRAPPED,
                    counterparty := Some (CPT_CONVEX env),
                    event_notes := Some (convex_note env (log_address lg) ''Return'' ev crypto_asset
                                     ''to convex'')\<rparr>, [])
              else
                (ev\<lparr>event_type := DEPOSIT,
                    counterparty := Some (CPT_CONVEX env),
                    event_notes := Some (convex_note env (log_address lg) ''Deposit'' ev crypto_asset
                                     ''into convex'')\<rparr>, []))
           else if event_type ev = RECEIVE \<and> event_subtype ev = NONE then
             (if hd (topics lg) \<in> WITHDRAWAL_TOPICS env then
                (ev\<lparr>event_type := WITHDRAWAL,
                    event_notes := Some (convex_note env (log_address lg) ''Withdraw'' ev crypto_asset
                                     ''from convex''),
                    counterparty := Some (CPT_CONVEX env)\<rparr>, [])
              else if hd (topics lg) \<in> REWARD_TOPICS env then
                (ev\<lparr>event_subtype := REWARD,
                    counterparty := Some (CPT_CONVEX env),
                    event_notes := Some (convex_note env (log_address lg) ''Claim'' ev crypto_asset
                                     ''reward from convex'')\<rparr>, [])
              else (ev, []))
           else (ev, [])))"

text \<open>The \<^verbatim>\<open>for\<close> loop over \<^verbatim>\<open>context.decoded_events\<close>.\<close>

fun decode_loop ::
  "convex_env \<Rightarrow> EvmTxReceiptLog \<Rightarrow> EvmTransaction \<Rightarrow> int \<Rightarrow> address \<Rightarrow> HistoryEvent list
     \<Rightarrow> HistoryEvent list \<times> notification list" where
  "decode_loop env lg tx amount_raw interacted_address [] = ([], [])"
| "decode_loop env lg tx amount_raw interacted_address (ev # evs) =
     (let (ev', ns) = decode_event env lg tx amount_raw interacted_address ev;
          (evs', ns') = decode_loop env lg tx amount_raw interacted_address evs
      in (ev' # evs', ns @ ns'))"

text \<open>
  \<^verbatim>\<open>_decode_convex_events\<close>: what the call returns or raises, the events after the call
  and the notifications sent. \<^verbatim>\<open>context.tx_log.topics[1]\<close> raises \<^verbatim>\<open>IndexError\<close> on a
  log with fewer than two topics, before the loop; the slice \<^verbatim>\<open>data[0:32]\<close> never
  raises. The loop reads \<^verbatim>\<open>topics[0]\<close> only after \<^verbatim>\<open>topics[1]\<close> was read, so \<open>hd\<close> is
  applied to a list with an element.
\<close>

definition decode_convex_events ::
  "convex_env \<Rightarrow> DecoderContext
     \<Rightarrow> DecodingOutput outcome \<times> HistoryEvent list \<times> notification list" where
  "decode_convex_events env ctx =
     (let amount_raw = hex_or_bytes_to_int (take 32 (data (tx_log ctx))) in
      if length (topics (tx_log ctx)) < 2 then (Raised IndexError, decoded_events ctx, [])
      else
        (let interacted_address = hex_or_bytes_to_address env (topics (tx_log ctx) ! 1);
             (evs, ns) = decode_loop env (tx_log ctx) (transaction ctx) amount_raw
                           interacted_address (decoded_events ctx)
         in (Returned DEFAULT_DECODING_OUTPUT, evs, ns)))"

text \<open>The amount and the interacted address the rule reads from the log of a context.\<close>

definition log_amount :: "DecoderContext \<Rightarrow> int" where
  "log_amount ctx = hex_or_bytes_to_int (take 32 (data (tx_log ctx)))"

definition log_interacted :: "convex_env \<Rightarrow> DecoderContext \<Rightarrow> address" where
  "log_interacted env ctx = hex_or_bytes_to_address env (topics (tx_log ctx) ! 1)"

text \<open>The events and the notifications after a call of the rule.\<close>

definition events_after :: "convex_env \<Rightarrow> DecoderContext \<Rightarrow> HistoryEvent list" where
  "events_after env ctx = fst (snd (decode_convex_events env ctx))"

definition notified :: "convex_env \<Rightarrow> DecoderContext \<Rightarrow> notification list" where
  "notified env ctx = snd (snd (decode_convex_events env ctx))"

section \<open>The enrichment rule\<close>

text \<open>
  \<^verbatim>\<open>_maybe_enrich_convex_transfers\<close>: the outcome and the event after the call.
  \<^verbatim>\<open>and\<close> evaluates left to right and stops at the first false operand, so
  \<^verbatim>\<open>topics[0]\<close> is read first and \<^verbatim>\<open>topics[1]\<close> only when the first comparison holds.
  The asset is resolved before the first assignment; nothing catches what it raises.
\<close>

definition maybe_enrich_convex_transfers ::
  "convex_env \<Rightarrow> EnricherContext \<Rightarrow> TransferEnrichmentOutput outcome \<times> HistoryEvent" where
  "maybe_enrich_convex_transfers env ctx =
     (let ev = event ctx; lg = tx_log ctx in
      if topics lg = [] then (Raised IndexError, ev)
      else if topics lg ! 0 \<noteq> ERC20_OR_ERC721_TRANSFER env
        then (Returned DEFAULT_ENRICHMENT_OUTPUT, ev)
      else if length (topics lg) < 2 then (Raised IndexError, ev)
      else if topics lg ! 1 \<in> CONVEX_ABRAS_HEX env \<and>
              location_label ev = Some (from_address (transaction ctx)) \<and>
              event_type ev = RECEIVE \<and>
              event_subtype ev = NONE
        then
          (case resolve_to_crypto_asset env (asset ev) of
             Inl err \<Rightarrow> (Raised (AssetError err), ev)
           | Inr crypto_asset \<Rightarrow>
               (Returned DEFAULT_ENRICHMENT_OUTPUT,
                ev\<lparr>event_subtype := REWARD,
                   event_notes := Some (convex_note env (log_address lg) ''Claim'' ev crypto_asset
                                    ''reward from convex''),
                   counterparty := Some (CPT_CONVEX env)\<rparr>))
      else (Returned DEFAULT_ENRICHMENT_OUTPUT, ev))"

section \<open>The data-migration manager\<close>

text \<open>
  \<^verbatim>\<open>rotkehlchen/data_migrations/manager.py\<close> is not among the sources: its tests are
  (\<^verbatim>\<open>tests/data_migrations/test_migrations.py\<close>), which import \<^verbatim>\<open>MIGRATION_LIST\<close>,
  \<^verbatim>\<open>LAST_DATA_MIGRATION\<close>, \<^verbatim>\<open>MigrationRecord\<close> and \<^verbatim>\<open>DataMigrationManager\<close> from it.
  The manager below follows section 4.4 of the specification step by step.

  A migration function works on the database \<open>'d\<close>; it returns the database it leaves, or
  raises with a message and leaves the database as it found it (each step runs in one
  scoped write transaction, section 5 of the specification).
\<close>

record 'd MigrationRecord =
  version :: int
  migration_function :: "'d \<Rightarrow> string + 'd"

text \<open>
  \<open>last_data_migration\<close> is the persisted marker, \<open>None\<close> when the setting is absent;
  \<open>errors\<close> are the error notifications recorded so far; \<open>invoked\<close> lists the versions
  whose function was called, in call order.
\<close>

record 'd migration_state =
  last_data_migration :: "int option"
  errors :: "string list"
  invoked :: "int list"
  db :: 'd

text \<open>Python's \<^verbatim>\<open>str\<close> of an integer, as the f-string of the error report renders the
  version.\<close>

definition digit_char :: "nat \<Rightarrow> char" where
  "digit_char d = ''0123456789'' ! d"

fun str_nat :: "nat \<Rightarrow> string" where
  "str_nat n = (if n < 10 then [digit_char n] else str_nat (n div 10) @ [digit_char (n mod 10)])"

declare str_nat.simps [simp del]

definition str_int :: "int \<Rightarrow> string" where
  "str_int i = (if i < 0 then CHR ''-'' # str_nat (nat (- i)) else str_nat (nat i))"

text \<open>Modelled from the spec: the error report of the notification channel (section 6),
  the plain string
  \<^verbatim>\<open>"Failed to run soft data migration to version {v} due to {message}"\<close>.\<close>

definition migration_error_text :: "int \<Rightarrow> string \<Rightarrow> string" where
  "migration_error_text v message =
     ''Failed to run soft data migration to version '' @ str_int v @ '' due to '' @ message"

text \<open>Modelled from the spec: step 2 of \<^verbatim>\<open>maybe_migrate_data\<close>, whose code is missing:
  the records with a version above the marker, ascending by version; an absent marker
  means that no migration ever ran, so no record is excluded.\<close>

definition selected_migrations ::
  "int option \<Rightarrow> 'd MigrationRecord list \<Rightarrow> 'd MigrationRecord list" where
  "selected_migrations m migration_list =
     sort_key version
       (filter (\<lambda>r. case m of None \<Rightarrow> True | Some v \<Rightarrow> v < version r) migration_list)"

text \<open>Modelled from the spec: step 4 of \<^verbatim>\<open>maybe_migrate_data\<close>, whose code is missing.
  Each selected record's function is called in order. When it raises, one error
  notification is recorded and the run stops with the marker as it is; when it returns,
  the marker is set to the record's version before the next record.\<close>

fun run_selected :: "'d MigrationRecord list \<Rightarrow> 'd migration_state \<Rightarrow> 'd migration_state" where
  "run_selected [] s = s"
| "run_selected (r # rs) s =
     (case migration_function r (db s) of
        Inl message \<Rightarrow>
          s\<lparr>errors := errors s @ [migration_error_text (version r) message],
            invoked := invoked s @ [version r]\<rparr>
      | Inr d \<Rightarrow>
          run_selected rs
            (s\<lparr>last_data_migration := Some (version r),
              invoked := invoked s @ [version r],
              db := d\<rparr>))"

text \<open>Modelled from the spec: the highest version number known across all registered
  migrations (step 5), the value the tests import as \<^verbatim>\<open>LAST_DATA_MIGRATION\<close>.\<close>

definition highest_version :: "'d MigrationRecord list \<Rightarrow> int" where
  "highest_version registered = Max (set (map version registered))"

text \<open>
  Modelled from the spec: \<^verbatim>\<open>DataMigrationManager.maybe_migrate_data\<close>, whose code is
  missing, steps 1 to 5 of section 4.4. \<open>migration_list\<close> is the list the call runs over
  and \<open>registered\<close> the registry the highest known version is taken from. The two are one
  list in the application; the tests replace \<^verbatim>\<open>MIGRATION_LIST\<close> for a call and compare
  the marker with the unchanged \<^verbatim>\<open>LAST_DATA_MIGRATION\<close>. With a marker and nothing
  selected the call is step 3's no-op; step 5 applies when the marker was absent and the
  selection is empty; otherwise the call is the run of step 4.
\<close>

definition maybe_migrate_data ::
  "'d MigrationRecord list \<Rightarrow> 'd MigrationRecord list \<Rightarrow> 'd migration_state
     \<Rightarrow> 'd migration_state" where
  "maybe_migrate_data registered migration_list s =
     (let m = last_data_migration s;
          selected = selected_migrations m migration_list
      in if selected = [] then
           (case m of
              Some _ \<Rightarrow> s
            | None \<Rightarrow> s\<lparr>last_data_migration := Some (highest_version registered)\<rparr>)
         else run_selected selected s)"

text \<open>The database after the functions of a list of records have all returned, each on
  the database the one before left; \<open>None\<close> when one of them raises.\<close>

fun apply_all :: "'d MigrationRecord list \<Rightarrow> 'd \<Rightarrow> 'd option" where
  "apply_all [] d = Some d"
| "apply_all (r # rs) d =
     (case migration_function r d of Inl _ \<Rightarrow> None | Inr d' \<Rightarrow> apply_all rs d')"

section \<open>A concrete setting\<close>

text \<open>One value of each parameter, for running the rules on concrete transactions: a
  32-byte word holding a small number, a six-decimal token, one pool, one signature of
  each kind.\<close>

definition word32 :: "8 word list \<Rightarrow> bytes" where
  "word32 bs = replicate (32 - length bs) 0 @ bs"

definition usdc :: CryptoAsset where
  "usdc = \<lparr>symbol = ''USDC'', decimals = 6\<rparr>"

definition ex_env :: convex_env where
  "ex_env =
     \<lparr>ZERO_ADDRESS = ''0x0000000000000000000000000000000000000000'',
      CPT_CONVEX = ''convex'',
      CONVEX_POOLS = [''0xPool'' \<mapsto> ''cDAI+cUSDC''],
      WITHDRAWAL_TOPICS = {word32 [1]},
      REWARD_TOPICS = {word32 [2]},
      CONVEX_ABRAS_HEX = {word32 [7]},
      ERC20_OR_ERC721_TRANSFER = word32 [9],
      resolve_to_crypto_asset =
        (\<lambda>a. if a = ''USDC'' then Inr usdc
             else if a = ''_nft_'' then Inl WrongAssetType else Inl UnknownAsset),
      hex_or_bytes_to_address = (\<lambda>t. if t = word32 [5] then ''0xUser'' else ''0xOther''),
      fval_str = (\<lambda>q. if q = 1 then ''1'' else ''?'')\<rparr>"

definition ex_event ::
  "HistoryEventType \<Rightarrow> string \<Rightarrow> rat \<Rightarrow> address option \<Rightarrow> string option \<Rightarrow> HistoryEvent" where
  "ex_event ty a amt addr label =
     \<lparr>event_type = ty, event_subtype = NONE, asset = a, balance_amount = amt,
      address = addr, location_label = label, event_notes = None, counterparty = None\<rparr>"

text \<open>A log of the pool whose data word is 1000000, one USDC in base units, with the
  signature \<open>sig\<close> and the user's address as second topic.\<close>

definition ex_log :: "bytes \<Rightarrow> EvmTxReceiptLog" where
  "ex_log sig =
     \<lparr>log_address = ''0xPool'', topics = [sig, word32 [5]], data = word32 [15, 66, 64]\<rparr>"

definition ex_ctx :: "bytes \<Rightarrow> HistoryEvent list \<Rightarrow> DecoderContext" where
  "ex_ctx sig evs =
     \<lparr>tx_log = ex_log sig, transaction = \<lparr>from_address = ''0xUser''\<rparr>,
      decoded_events = evs\<rparr>"

text \<open>An enrichment context: a transfer log with the topics \<open>ts\<close> and one event.\<close>

definition ex_enrich_ctx :: "bytes list \<Rightarrow> HistoryEvent \<Rightarrow> EnricherContext" where
  "ex_enrich_ctx ts ev =
     \<lparr>tx_log = \<lparr>log_address = ''0xAbra'', topics = ts, data = word32 [15, 66, 64]\<rparr>,
      transaction = \<lparr>from_address = ''0xUser''\<rparr>, event = ev\<rparr>"


text \<open>Migrations over a database that counts the functions that returned: one that
  returns, and the botched one of \<^verbatim>\<open>test_failed_migration\<close>, which raises
  \<^verbatim>\<open>ValueError('ngmi')\<close>; a registry of versions 1 to 9, as many as the tests index; and
  a state with a given marker and nothing recorded.\<close>

definition ok_migration :: "int \<Rightarrow> nat MigrationRecord" where
  "ok_migration v = \<lparr>version = v, migration_function = (\<lambda>d. Inr (Suc d))\<rparr>"

definition botched_migration :: "int \<Rightarrow> nat MigrationRecord" where
  "botched_migration v = \<lparr>version = v, migration_function = (\<lambda>d. Inl ''ngmi'')\<rparr>"

definition registry9 :: "nat MigrationRecord list" where
  "registry9 = map ok_migration [1, 2, 3, 4, 5, 6, 7, 8, 9]"

definition ex_state :: "int option \<Rightarrow> nat migration_state" where
  "ex_state m = \<lparr>last_data_migration = m, errors = [], invoked = [], db = 0\<rparr>"

section \<open>Properties of the decoder and of the enrichment rule\<close>


lemma foldl_zero_bytes:
  "foldl (\<lambda>acc b. 256 * acc + uint b) 0 (replicate n (0::8 word)) = (0::int)"
  by (induction n) simp_all

lemma amount_raw_ex: "hex_or_bytes_to_int (take 32 (word32 [15, 66, 64])) = 1000000"
  by (simp add: hex_or_bytes_to_int_def word32_def foldl_zero_bytes)

lemma norm_ex: "asset_normalized_value 1000000 usdc = 1"
  by (simp add: asset_normalized_value_def usdc_def)

lemma acting_party_clause_False: "\<not> acting_party_clause l f i"
  by (simp add: acting_party_clause_def py_is_False_def Let_def)

lemma decode_loop_map:
  "decode_loop env lg tx raw ia evs =
     (map (\<lambda>ev. fst (decode_event env lg tx raw ia ev)) evs,
      concat (map (\<lambda>ev. snd (decode_event env lg tx raw ia ev)) evs))"
  by (induction evs) (simp_all add: case_prod_unfold Let_def)

lemma decode_convex_events_short:
  "length (topics (tx_log ctx)) < 2 \<Longrightarrow>
   decode_convex_events env ctx = (Raised IndexError, decoded_events ctx, [])"
  by (simp add: decode_convex_events_def)

lemma decode_convex_events_long:
  "2 \<le> length (topics (tx_log ctx)) \<Longrightarrow>
   decode_convex_events env ctx =
     (Returned DEFAULT_DECODING_OUTPUT,
      map (\<lambda>ev. fst (decode_event env (tx_log ctx) (transaction ctx) (log_amount ctx)
                       (log_interacted env ctx) ev)) (decoded_events ctx),
      concat (map (\<lambda>ev. snd (decode_event env (tx_log ctx) (transaction ctx) (log_amount ctx)
                       (log_interacted env ctx) ev)) (decoded_events ctx)))"
  by (simp add: decode_convex_events_def decode_loop_map log_amount_def log_interacted_def Let_def)

lemma length_events_after: "length (events_after env ctx) = length (decoded_events ctx)"
  by (cases "length (topics (tx_log ctx)) < 2")
     (simp_all add: events_after_def decode_convex_events_short decode_convex_events_long)

lemma events_after_nth:
  "2 \<le> length (topics (tx_log ctx)) \<Longrightarrow> i < length (decoded_events ctx) \<Longrightarrow>
   events_after env ctx ! i =
     fst (decode_event env (tx_log ctx) (transaction ctx) (log_amount ctx)
            (log_interacted env ctx) (decoded_events ctx ! i))"
  by (simp add: events_after_def decode_convex_events_long)

lemma events_after_short:
  "length (topics (tx_log ctx)) < 2 \<Longrightarrow> events_after env ctx = decoded_events ctx"
  by (simp add: events_after_def decode_convex_events_short)

lemma decode_event_unresolved:
  "resolve_to_crypto_asset env (asset ev) = Inl err \<Longrightarrow>
   decode_event env lg tx raw ia ev = (ev, [(ev, CPT_CONVEX env)])"
  by (simp add: decode_event_def)

lemma decode_event_resolved:
  "resolve_to_crypto_asset env (asset ev) = Inr ca \<Longrightarrow>
   decode_event env lg tx raw ia ev =
     (if address ev \<noteq> Some (ZERO_ADDRESS env) \<and> balance_amount ev \<noteq> asset_normalized_value raw ca
      then (ev, [])
      else if event_type ev = SPEND \<and> event_subtype ev = NONE then
        (if address ev = Some (ZERO_ADDRESS env) then
           (ev\<lparr>event_subtype := RETURN_WRAPPED,
               counterparty := Some (CPT_CONVEX env),
               event_notes := Some (convex_note env (log_address lg) ''Return'' ev ca ''to convex'')\<rparr>, [])
         else
           (ev\<lparr>event_type := DEPOSIT,
               counterparty := Some (CPT_CONVEX env),
               event_notes := Some (convex_note env (log_address lg) ''Deposit'' ev ca ''into convex'')\<rparr>, []))
      else if event_type ev = RECEIVE \<and> event_subtype ev = NONE then
        (if hd (topics lg) \<in> WITHDRAWAL_TOPICS env then
           (ev\<lparr>event_type := WITHDRAWAL,
               event_notes := Some (convex_note env (log_address lg) ''Withdraw'' ev ca ''from convex''),
               counterparty := Some (CPT_CONVEX env)\<rparr>, [])
         else if hd (topics lg) \<in> REWARD_TOPICS env then
           (ev\<lparr>event_subtype := REWARD,
               counterparty := Some (CPT_CONVEX env),
               event_notes := Some (convex_note env (log_address lg) ''Claim'' ev ca ''reward from convex'')\<rparr>, [])
         else (ev, []))
      else (ev, []))"
  by (simp add: decode_event_def acting_party_clause_False Let_def)

text \<open>
  Claim C2 (amount correlation). An event whose counterparty address is not the zero
  address (an absent address included) and whose amount differs from the log's raw amount
  normalized by the event's asset is the same after the call as before it. An event whose
  asset does not resolve is unchanged as well, so the hypothesis on the amount is only
  needed for the asset the resolver returns.
\<close>
theorem amount_correlation:
  assumes "i < length (decoded_events ctx)"
    and "address (decoded_events ctx ! i) \<noteq> Some (ZERO_ADDRESS env)"
    and "\<forall>crypto_asset. resolve_to_crypto_asset env (asset (decoded_events ctx ! i)) = Inr crypto_asset
           \<longrightarrow> balance_amount (decoded_events ctx ! i) \<noteq> asset_normalized_value (log_amount ctx) crypto_asset"
  shows "events_after env ctx ! i = decoded_events ctx ! i"
proof (cases "length (topics (tx_log ctx)) < 2")
  case True
  then show ?thesis by (simp add: events_after_short)
next
  case False
  then have long: "2 \<le> length (topics (tx_log ctx))" by simp
  show ?thesis
  proof (cases "resolve_to_crypto_asset env (asset (decoded_events ctx ! i))")
    case (Inl err)
    then show ?thesis using assms(1) long
      by (simp add: events_after_nth decode_event_unresolved)
  next
    case (Inr ca)
    then show ?thesis using assms long
      by (simp add: events_after_nth decode_event_resolved)
  qed
qed


text \<open>
  Claim C5 (RECEIVE branch). For an event at (RECEIVE, NONE) whose asset resolves and which
  passes the acting-party and the amount correlation: a log signature in the withdrawal set
  makes the type WITHDRAWAL, with the counterparty tag and the note
  \<^verbatim>\<open>Withdraw {amount} {symbol} from convex[ {pool} pool]\<close>; a signature in the reward set
  makes the subtype REWARD, with the tag and the note
  \<^verbatim>\<open>Claim {amount} {symbol} reward from convex[ {pool} pool]\<close>; a signature in neither set
  leaves every field as it was. The two sets are disjoint, as the specification says of
  them; the code tests the withdrawal set first.
\<close>
theorem receive_branch_classification:
  assumes topics2: "2 \<le> length (topics (tx_log ctx))"
    and i: "i < length (decoded_events ctx)"
    and ev: "ev = decoded_events ctx ! i"
    and at: "event_type ev = RECEIVE" "event_subtype ev = NONE"
    and resolved: "resolve_to_crypto_asset env (asset ev) = Inr crypto_asset"
    and acting: "location_label ev = Some (from_address (transaction ctx))"
                "from_address (transaction ctx) = log_interacted env ctx"
    and amount: "address ev = Some (ZERO_ADDRESS env) \<or>
                 balance_amount ev = asset_normalized_value (log_amount ctx) crypto_asset"
    and disjoint: "WITHDRAWAL_TOPICS env \<inter> REWARD_TOPICS env = {}"
  shows "(topics (tx_log ctx) ! 0 \<in> WITHDRAWAL_TOPICS env \<longrightarrow>
            events_after env ctx ! i =
              ev\<lparr>event_type := WITHDRAWAL,
                 event_notes := Some (convex_note env (log_address (tx_log ctx)) ''Withdraw'' ev
                                        crypto_asset ''from convex''),
                 counterparty := Some (CPT_CONVEX env)\<rparr>) \<and>
         (topics (tx_log ctx) ! 0 \<in> REWARD_TOPICS env \<longrightarrow>
            events_after env ctx ! i =
              ev\<lparr>event_subtype := REWARD,
                 counterparty := Some (CPT_CONVEX env),
                 event_notes := Some (convex_note env (log_address (tx_log ctx)) ''Claim'' ev
                                        crypto_asset ''reward from convex'')\<rparr>) \<and>
         (topics (tx_log ctx) ! 0 \<notin> WITHDRAWAL_TOPICS env \<union> REWARD_TOPICS env \<longrightarrow>
            events_after env ctx ! i = ev)"
proof -
  have hd0: "hd (topics (tx_log ctx)) = topics (tx_log ctx) ! 0"
    using topics2 by (cases "topics (tx_log ctx)") simp_all
  have step: "events_after env ctx ! i =
      fst (decode_event env (tx_log ctx) (transaction ctx) (log_amount ctx)
             (log_interacted env ctx) ev)"
    using topics2 i ev by (simp add: events_after_nth)
  show ?thesis
    using at amount disjoint
    by (auto simp: step decode_event_resolved [OF resolved] hd0)
qed

text \<open>
  Claim C6 (SPEND branch). For an event at (SPEND, NONE) whose asset resolves and which
  passes the acting-party correlation: with the zero address as counterparty the subtype
  becomes RETURN_WRAPPED, whatever the amount, the type stays SPEND, the tag is set and the
  note is \<^verbatim>\<open>Return {amount} {symbol} to convex[ {pool} pool]\<close>; with another
  counterparty and the amount of the log, the type becomes DEPOSIT, the tag is set and the
  note is \<^verbatim>\<open>Deposit {amount} {symbol} into convex[ {pool} pool]\<close>. The note names the
  pool exactly when the log's emitter is a key of the pool table.
\<close>
theorem spend_branch_classification:
  assumes topics2: "2 \<le> length (topics (tx_log ctx))"
    and i: "i < length (decoded_events ctx)"
    and ev: "ev = decoded_events ctx ! i"
    and at: "event_type ev = SPEND" "event_subtype ev = NONE"
    and resolved: "resolve_to_crypto_asset env (asset ev) = Inr crypto_asset"
    and acting: "location_label ev = Some (from_address (transaction ctx))"
                "from_address (transaction ctx) = log_interacted env ctx"
  shows "(address ev = Some (ZERO_ADDRESS env) \<longrightarrow>
            events_after env ctx ! i =
              ev\<lparr>event_subtype := RETURN_WRAPPED,
                 counterparty := Some (CPT_CONVEX env),
                 event_notes := Some (convex_note env (log_address (tx_log ctx)) ''Return'' ev
                                        crypto_asset ''to convex'')\<rparr>) \<and>
         (address ev \<noteq> Some (ZERO_ADDRESS env) \<and>
          balance_amount ev = asset_normalized_value (log_amount ctx) crypto_asset \<longrightarrow>
            events_after env ctx ! i =
              ev\<lparr>event_type := DEPOSIT,
                 counterparty := Some (CPT_CONVEX env),
                 event_notes := Some (convex_note env (log_address (tx_log ctx)) ''Deposit'' ev
                                        crypto_asset ''into convex'')\<rparr>) \<and>
         (\<forall>verb tail.
            convex_note env (log_address (tx_log ctx)) verb ev crypto_asset tail =
              (case CONVEX_POOLS env (log_address (tx_log ctx)) of
                 Some pool \<Rightarrow> verb @ '' '' @ fval_str env (balance_amount ev) @ '' ''
                                @ symbol crypto_asset @ '' '' @ tail @ '' '' @ pool @ '' pool''
               | None \<Rightarrow> verb @ '' '' @ fval_str env (balance_amount ev) @ '' ''
                                @ symbol crypto_asset @ '' '' @ tail))"
proof -
  have step: "events_after env ctx ! i =
      fst (decode_event env (tx_log ctx) (transaction ctx) (log_amount ctx)
             (log_interacted env ctx) ev)"
    using topics2 i ev by (simp add: events_after_nth)
  show ?thesis
    using at
    by (simp add: step decode_event_resolved [OF resolved] convex_note_def)
qed

text \<open>
  Claim C9 (unclassifiable asset). The rule never raises \<^verbatim>\<open>UnknownAsset\<close> or
  \<^verbatim>\<open>WrongAssetType\<close>. On a log with the two topics the rule reads, it returns the default
  output, keeps the number of events, and leaves every event as the loop body alone would
  leave it, whatever the other events are; an event whose asset does not resolve is
  unchanged and a notification for it, with the Convex tag, is sent.
\<close>
theorem unresolvable_asset_skipped:
  "(\<forall>err. fst (decode_convex_events env ctx) \<noteq> Raised (AssetError err)) \<and>
   (2 \<le> length (topics (tx_log ctx)) \<longrightarrow>
      fst (decode_convex_events env ctx) = Returned DEFAULT_DECODING_OUTPUT \<and>
      length (events_after env ctx) = length (decoded_events ctx) \<and>
      (\<forall>i < length (decoded_events ctx).
         events_after env ctx ! i =
           fst (decode_event env (tx_log ctx) (transaction ctx) (log_amount ctx)
                  (log_interacted env ctx) (decoded_events ctx ! i)) \<and>
         ((\<exists>err. resolve_to_crypto_asset env (asset (decoded_events ctx ! i)) = Inl err) \<longrightarrow>
            events_after env ctx ! i = decoded_events ctx ! i \<and>
            (decoded_events ctx ! i, CPT_CONVEX env) \<in> set (notified env ctx))))"
proof (cases "length (topics (tx_log ctx)) < 2")
  case True
  then show ?thesis by (simp add: decode_convex_events_short)
next
  case False
  then have long: "2 \<le> length (topics (tx_log ctx))" by simp
  have notif: "(decoded_events ctx ! i, CPT_CONVEX env) \<in> set (notified env ctx)"
    if "i < length (decoded_events ctx)"
      and "resolve_to_crypto_asset env (asset (decoded_events ctx ! i)) = Inl err" for i err
  proof -
    have "decoded_events ctx ! i \<in> set (decoded_events ctx)" using that(1) by simp
    then show ?thesis
      using that(2) by (auto simp: notified_def decode_convex_events_long [OF long]
          decode_event_unresolved intro!: bexI [of _ "decoded_events ctx ! i"])
  qed
  show ?thesis
    using long
    by (auto simp: decode_convex_events_long length_events_after events_after_nth
        decode_event_unresolved notif)
qed

text \<open>
  Claim C10 (the enrichment rule does not catch). When the four conditions of the
  enrichment rule hold and the resolver raises, the rule raises the same error, and the
  event at that moment is the event it was given.
\<close>
theorem enrichment_raises_on_unresolved_asset:
  assumes "2 \<le> length (topics (tx_log ctx))"
    and "topics (tx_log ctx) ! 0 = ERC20_OR_ERC721_TRANSFER env"
    and "topics (tx_log ctx) ! 1 \<in> CONVEX_ABRAS_HEX env"
    and "location_label (event ctx) = Some (from_address (transaction ctx))"
    and "event_type (event ctx) = RECEIVE" "event_subtype (event ctx) = NONE"
    and "resolve_to_crypto_asset env (asset (event ctx)) = Inl err"
  shows "maybe_enrich_convex_transfers env ctx = (Raised (AssetError err), event ctx)"
  using assms by (auto simp: maybe_enrich_convex_transfers_def Let_def)

text \<open>
  Claim C8, amended (enrichment contract). On a log whose topics the rule can read (at
  least one topic, and two when the first is the transfer signature): when the four
  conditions hold and the asset resolves, the rule returns the default output and the
  event has subtype REWARD, the reward note and the Convex tag; when a condition fails it
  returns the default output and the event is unchanged; and an event that the call
  changed satisfied the four conditions and had an asset that resolves.
\<close>
theorem enrichment_contract:
  assumes "topics (tx_log ctx) \<noteq> []"
    and "topics (tx_log ctx) ! 0 = ERC20_OR_ERC721_TRANSFER env \<longrightarrow> 2 \<le> length (topics (tx_log ctx))"
  shows "(\<forall>crypto_asset.
            topics (tx_log ctx) ! 0 = ERC20_OR_ERC721_TRANSFER env \<and>
            topics (tx_log ctx) ! 1 \<in> CONVEX_ABRAS_HEX env \<and>
            location_label (event ctx) = Some (from_address (transaction ctx)) \<and>
            event_type (event ctx) = RECEIVE \<and> event_subtype (event ctx) = NONE \<and>
            resolve_to_crypto_asset env (asset (event ctx)) = Inr crypto_asset \<longrightarrow>
              maybe_enrich_convex_transfers env ctx =
                (Returned DEFAULT_ENRICHMENT_OUTPUT,
                 (event ctx)\<lparr>event_subtype := REWARD,
                    event_notes := Some (convex_note env (log_address (tx_log ctx)) ''Claim''
                                           (event ctx) crypto_asset ''reward from convex''),
                    counterparty := Some (CPT_CONVEX env)\<rparr>)) \<and>
         (\<not> (topics (tx_log ctx) ! 0 = ERC20_OR_ERC721_TRANSFER env \<and>
             topics (tx_log ctx) ! 1 \<in> CONVEX_ABRAS_HEX env \<and>
             location_label (event ctx) = Some (from_address (transaction ctx)) \<and>
             event_type (event ctx) = RECEIVE \<and> event_subtype (event ctx) = NONE) \<longrightarrow>
              maybe_enrich_convex_transfers env ctx =
                (Returned DEFAULT_ENRICHMENT_OUTPUT, event ctx)) \<and>
         (snd (maybe_enrich_convex_transfers env ctx) \<noteq> event ctx \<longrightarrow>
            topics (tx_log ctx) ! 0 = ERC20_OR_ERC721_TRANSFER env \<and>
            topics (tx_log ctx) ! 1 \<in> CONVEX_ABRAS_HEX env \<and>
            location_label (event ctx) = Some (from_address (transaction ctx)) \<and>
            event_type (event ctx) = RECEIVE \<and> event_subtype (event ctx) = NONE \<and>
            (\<exists>crypto_asset. resolve_to_crypto_asset env (asset (event ctx)) = Inr crypto_asset))"
  using assms
  by (auto simp: maybe_enrich_convex_transfers_def Let_def split: sum.splits)


lemmas ex_defs = ex_ctx_def ex_log_def ex_event_def ex_env_def usdc_def ex_enrich_ctx_def
  log_amount_def log_interacted_def amount_raw_ex

lemma word32_byte_eq [simp]: "word32 [a] = word32 [b] \<longleftrightarrow> a = b"
  by (simp add: word32_def)

lemma ex_normalized [simp]: "asset_normalized_value 1000000 \<lparr>symbol = ''USDC'', decimals = 6\<rparr> = 1"
  by (simp add: asset_normalized_value_def)

theorem amount_correlation_witness:
  "address (ex_event RECEIVE ''USDC'' 2 (Some ''0xPool'') (Some ''0xUser'')) \<noteq> Some (ZERO_ADDRESS ex_env) \<and>
   resolve_to_crypto_asset ex_env ''USDC'' = Inr usdc \<and>
   asset_normalized_value (log_amount (ex_ctx (word32 [1]) [ex_event RECEIVE ''USDC'' 2 (Some ''0xPool'') (Some ''0xUser'')])) usdc \<noteq> 2 \<and>
   events_after ex_env (ex_ctx (word32 [1]) [ex_event RECEIVE ''USDC'' 2 (Some ''0xPool'') (Some ''0xUser'')]) ! 0
     = ex_event RECEIVE ''USDC'' 2 (Some ''0xPool'') (Some ''0xUser'')"
proof -
  let ?ev = "ex_event RECEIVE ''USDC'' 2 (Some ''0xPool'') (Some ''0xUser'')"
  let ?ctx = "ex_ctx (word32 [1]) [?ev]"
  have h1: "0 < length (decoded_events ?ctx)" by (simp add: ex_defs)
  have h2: "address (decoded_events ?ctx ! 0) \<noteq> Some (ZERO_ADDRESS ex_env)" by (simp add: ex_defs)
  have h3: "\<forall>crypto_asset. resolve_to_crypto_asset ex_env (asset (decoded_events ?ctx ! 0)) = Inr crypto_asset
           \<longrightarrow> balance_amount (decoded_events ?ctx ! 0) \<noteq> asset_normalized_value (log_amount ?ctx) crypto_asset"
    by (simp add: ex_defs)
  have "events_after ex_env ?ctx ! 0 = decoded_events ?ctx ! 0"
    by (rule amount_correlation [OF h1 h2 h3])
  moreover have "decoded_events ?ctx ! 0 = ?ev" by (simp add: ex_defs)
  ultimately show ?thesis by (simp add: ex_defs)
qed

text \<open>
  Claim C1 (acting-party correlation) on a concrete transaction. The initiator and the
  address of the log's second topic are the user's; the event carries another label, the
  log's amount and the pool as counterparty. The chained comparison ends in
  \<^verbatim>\<open>interacted_address is False\<close>, which no address satisfies, so the acting-party test
  never skips an event: the event is reclassified as a withdrawal.
\<close>

theorem acting_party_mismatch_is_reclassified:
  "location_label (ex_event RECEIVE ''USDC'' 1 (Some ''0xPool'') (Some ''0xSomeoneElse'')) \<noteq> Some ''0xUser'' \<and>
   from_address (transaction (ex_ctx (word32 [1]) [ex_event RECEIVE ''USDC'' 1 (Some ''0xPool'') (Some ''0xSomeoneElse'')])) = ''0xUser'' \<and>
   decode_convex_events ex_env
     (ex_ctx (word32 [1]) [ex_event RECEIVE ''USDC'' 1 (Some ''0xPool'') (Some ''0xSomeoneElse'')]) =
     (Returned DEFAULT_DECODING_OUTPUT,
      [\<lparr>event_type = WITHDRAWAL, event_subtype = NONE, asset = ''USDC'', balance_amount = 1,
        address = Some ''0xPool'', location_label = Some ''0xSomeoneElse'',
        event_notes = Some ''Withdraw 1 USDC from convex cDAI+cUSDC pool'',
        counterparty = Some ''convex''\<rparr>],
      [])"
  by (simp add: decode_convex_events_long decode_event_resolved [where ca = usdc] convex_note_def
      ex_defs)

theorem receive_branch_classification_witness:
  "WITHDRAWAL_TOPICS ex_env \<inter> REWARD_TOPICS ex_env = {} \<and>
   location_label (ex_event RECEIVE ''USDC'' 1 (Some ''0xPool'') (Some ''0xUser'')) = Some ''0xUser'' \<and>
   log_interacted ex_env (ex_ctx (word32 [2]) [ex_event RECEIVE ''USDC'' 1 (Some ''0xPool'') (Some ''0xUser'')]) = ''0xUser'' \<and>
   word32 [2] \<in> REWARD_TOPICS ex_env \<and>
   events_after ex_env (ex_ctx (word32 [2]) [ex_event RECEIVE ''USDC'' 1 (Some ''0xPool'') (Some ''0xUser'')]) ! 0 =
     \<lparr>event_type = RECEIVE, event_subtype = REWARD, asset = ''USDC'', balance_amount = 1,
      address = Some ''0xPool'', location_label = Some ''0xUser'',
      event_notes = Some ''Claim 1 USDC reward from convex cDAI+cUSDC pool'',
      counterparty = Some ''convex''\<rparr>"
proof -
  let ?ev = "ex_event RECEIVE ''USDC'' 1 (Some ''0xPool'') (Some ''0xUser'')"
  let ?ctx = "ex_ctx (word32 [2]) [?ev]"
  have h1: "2 \<le> length (topics (tx_log ?ctx))" by (simp add: ex_defs)
  have h2: "0 < length (decoded_events ?ctx)" by (simp add: ex_defs)
  have h3: "?ev = decoded_events ?ctx ! 0" by (simp add: ex_defs)
  have h4: "event_type ?ev = RECEIVE" by (simp add: ex_defs)
  have h5: "event_subtype ?ev = NONE" by (simp add: ex_defs)
  have h6: "resolve_to_crypto_asset ex_env (asset ?ev) = Inr usdc" by (simp add: ex_defs)
  have h7: "location_label ?ev = Some (from_address (transaction ?ctx))" by (simp add: ex_defs)
  have h8: "from_address (transaction ?ctx) = log_interacted ex_env ?ctx" by (simp add: ex_defs)
  have h9: "address ?ev = Some (ZERO_ADDRESS ex_env) \<or>
            balance_amount ?ev = asset_normalized_value (log_amount ?ctx) usdc"
    by (simp add: ex_defs)
  have h10: "WITHDRAWAL_TOPICS ex_env \<inter> REWARD_TOPICS ex_env = {}" by (simp add: ex_defs)
  have r: "topics (tx_log ?ctx) ! 0 \<in> REWARD_TOPICS ex_env" by (simp add: ex_defs)
  from receive_branch_classification [OF h1 h2 h3 h4 h5 h6 h7 h8 h9 h10] r
  have "events_after ex_env ?ctx ! 0 =
      ?ev\<lparr>event_subtype := REWARD, counterparty := Some (CPT_CONVEX ex_env),
          event_notes := Some (convex_note ex_env (log_address (tx_log ?ctx)) ''Claim'' ?ev
                                 usdc ''reward from convex'')\<rparr>"
    by blast
  then show ?thesis by (simp add: ex_defs convex_note_def)
qed

theorem spend_branch_classification_witness:
  "events_after ex_env (ex_ctx (word32 [3]) [ex_event SPEND ''USDC'' 1 (Some ''0xUnlisted'') (Some ''0xUser'')]) ! 0 =
     \<lparr>event_type = DEPOSIT, event_subtype = NONE, asset = ''USDC'', balance_amount = 1,
      address = Some ''0xUnlisted'', location_label = Some ''0xUser'',
      event_notes = Some ''Deposit 1 USDC into convex cDAI+cUSDC pool'',
      counterparty = Some ''convex''\<rparr> \<and>
   events_after ex_env (ex_ctx (word32 [3]) [ex_event SPEND ''USDC'' 5 (Some (ZERO_ADDRESS ex_env)) (Some ''0xUser'')]) ! 0 =
     \<lparr>event_type = SPEND, event_subtype = RETURN_WRAPPED, asset = ''USDC'', balance_amount = 5,
      address = Some ''0x0000000000000000000000000000000000000000'', location_label = Some ''0xUser'',
      event_notes = Some ''Return ? USDC to convex cDAI+cUSDC pool'',
      counterparty = Some ''convex''\<rparr>"
proof -
  let ?ev = "ex_event SPEND ''USDC'' 1 (Some ''0xUnlisted'') (Some ''0xUser'')"
  let ?ctx = "ex_ctx (word32 [3]) [?ev]"
  let ?ev' = "ex_event SPEND ''USDC'' 5 (Some (ZERO_ADDRESS ex_env)) (Some ''0xUser'')"
  let ?ctx' = "ex_ctx (word32 [3]) [?ev']"
  have a: "events_after ex_env ?ctx ! 0 =
      ?ev\<lparr>event_type := DEPOSIT, counterparty := Some (CPT_CONVEX ex_env),
          event_notes := Some (convex_note ex_env (log_address (tx_log ?ctx)) ''Deposit'' ?ev
                                 usdc ''into convex'')\<rparr>"
    using spend_branch_classification [of ?ctx 0 ?ev ex_env usdc]
    by (simp add: ex_defs)
  have b: "events_after ex_env ?ctx' ! 0 =
      ?ev'\<lparr>event_subtype := RETURN_WRAPPED, counterparty := Some (CPT_CONVEX ex_env),
          event_notes := Some (convex_note ex_env (log_address (tx_log ?ctx')) ''Return'' ?ev'
                                 usdc ''to convex'')\<rparr>"
    using spend_branch_classification [of ?ctx' 0 ?ev' ex_env usdc]
    by (simp add: ex_defs)
  show ?thesis
    by (simp add: a b) (simp add: ex_defs convex_note_def)
qed

theorem unresolvable_asset_skipped_witness:
  "resolve_to_crypto_asset ex_env ''GHOST'' = Inl UnknownAsset \<and>
   fst (decode_convex_events ex_env
     (ex_ctx (word32 [2]) [ex_event RECEIVE ''GHOST'' 1 (Some ''0xPool'') (Some ''0xUser''),
                           ex_event RECEIVE ''USDC'' 1 (Some ''0xPool'') (Some ''0xUser'')]))
     = Returned DEFAULT_DECODING_OUTPUT \<and>
   events_after ex_env
     (ex_ctx (word32 [2]) [ex_event RECEIVE ''GHOST'' 1 (Some ''0xPool'') (Some ''0xUser''),
                           ex_event RECEIVE ''USDC'' 1 (Some ''0xPool'') (Some ''0xUser'')]) ! 0
     = ex_event RECEIVE ''GHOST'' 1 (Some ''0xPool'') (Some ''0xUser'') \<and>
   (ex_event RECEIVE ''GHOST'' 1 (Some ''0xPool'') (Some ''0xUser''), ''convex'') \<in> set (notified ex_env
     (ex_ctx (word32 [2]) [ex_event RECEIVE ''GHOST'' 1 (Some ''0xPool'') (Some ''0xUser''),
                           ex_event RECEIVE ''USDC'' 1 (Some ''0xPool'') (Some ''0xUser'')])) \<and>
   event_subtype (events_after ex_env
     (ex_ctx (word32 [2]) [ex_event RECEIVE ''GHOST'' 1 (Some ''0xPool'') (Some ''0xUser''),
                           ex_event RECEIVE ''USDC'' 1 (Some ''0xPool'') (Some ''0xUser'')]) ! 1)
     = REWARD"
proof -
  let ?g = "ex_event RECEIVE ''GHOST'' 1 (Some ''0xPool'') (Some ''0xUser'')"
  let ?u = "ex_event RECEIVE ''USDC'' 1 (Some ''0xPool'') (Some ''0xUser'')"
  let ?ctx = "ex_ctx (word32 [2]) [?g, ?u]"
  have long: "2 \<le> length (topics (tx_log ?ctx))" by (simp add: ex_defs)
  have evs: "decoded_events ?ctx = [?g, ?u]" by (simp add: ex_defs)
  have res: "resolve_to_crypto_asset ex_env (asset ?g) = Inl UnknownAsset" by (simp add: ex_defs)
  have resu: "resolve_to_crypto_asset ex_env (asset ?u) = Inr usdc" by (simp add: ex_defs)
  note c9 = unresolvable_asset_skipped [of ex_env ?ctx]
  from c9 long have ret: "fst (decode_convex_events ex_env ?ctx) = Returned DEFAULT_DECODING_OUTPUT"
    by blast
  from c9 long have all: "\<forall>i < length (decoded_events ?ctx).
         events_after ex_env ?ctx ! i =
           fst (decode_event ex_env (tx_log ?ctx) (transaction ?ctx) (log_amount ?ctx)
                  (log_interacted ex_env ?ctx) (decoded_events ?ctx ! i)) \<and>
         ((\<exists>err. resolve_to_crypto_asset ex_env (asset (decoded_events ?ctx ! i)) = Inl err) \<longrightarrow>
            events_after ex_env ?ctx ! i = decoded_events ?ctx ! i \<and>
            (decoded_events ?ctx ! i, CPT_CONVEX ex_env) \<in> set (notified ex_env ?ctx))"
    by blast
  have len0: "0 < length (decoded_events ?ctx)" by (simp add: evs)
  have d0: "decoded_events ?ctx ! 0 = ?g" by (simp add: evs)
  have ex0: "\<exists>err. resolve_to_crypto_asset ex_env (asset (decoded_events ?ctx ! 0)) = Inl err"
    unfolding d0 using res by blast
  from all len0 ex0
  have "events_after ex_env ?ctx ! 0 = decoded_events ?ctx ! 0 \<and>
        (decoded_events ?ctx ! 0, CPT_CONVEX ex_env) \<in> set (notified ex_env ?ctx)"
    by blast
  then have zero: "events_after ex_env ?ctx ! 0 = ?g \<and>
      (?g, CPT_CONVEX ex_env) \<in> set (notified ex_env ?ctx)"
    unfolding d0 .
  have len1: "1 < length (decoded_events ?ctx)" by (simp add: evs)
  have d1: "decoded_events ?ctx ! 1 = ?u" by (simp add: evs)
  from all len1
  have "events_after ex_env ?ctx ! 1 =
      fst (decode_event ex_env (tx_log ?ctx) (transaction ?ctx) (log_amount ?ctx)
             (log_interacted ex_env ?ctx) (decoded_events ?ctx ! 1))"
    by blast
  then have one: "events_after ex_env ?ctx ! 1 =
      fst (decode_event ex_env (tx_log ?ctx) (transaction ?ctx) (log_amount ?ctx)
             (log_interacted ex_env ?ctx) ?u)"
    unfolding d1 .
  have sub: "event_subtype (events_after ex_env ?ctx ! 1) = REWARD"
    unfolding one by (simp add: decode_event_resolved [OF resu]) (simp add: ex_defs)
  have cpt: "CPT_CONVEX ex_env = ''convex''" by (simp add: ex_defs)
  have res': "resolve_to_crypto_asset ex_env ''GHOST'' = Inl UnknownAsset" by (simp add: ex_defs)
  show ?thesis using ret zero sub res' unfolding cpt by blast
qed

theorem enrichment_raises_on_unresolved_asset_witness:
  "resolve_to_crypto_asset ex_env ''_nft_'' = Inl WrongAssetType \<and>
   maybe_enrich_convex_transfers ex_env
     (ex_enrich_ctx [word32 [9], word32 [7], word32 [5]]
        (ex_event RECEIVE ''_nft_'' 1 (Some ''0xAbra'') (Some ''0xUser''))) =
     (Raised (AssetError WrongAssetType),
      ex_event RECEIVE ''_nft_'' 1 (Some ''0xAbra'') (Some ''0xUser''))"
proof -
  let ?ev = "ex_event RECEIVE ''_nft_'' 1 (Some ''0xAbra'') (Some ''0xUser'')"
  let ?ctx = "ex_enrich_ctx [word32 [9], word32 [7], word32 [5]] ?ev"
  have h1: "2 \<le> length (topics (tx_log ?ctx))" by (simp add: ex_defs)
  have h2: "topics (tx_log ?ctx) ! 0 = ERC20_OR_ERC721_TRANSFER ex_env" by (simp add: ex_defs)
  have h3: "topics (tx_log ?ctx) ! 1 \<in> CONVEX_ABRAS_HEX ex_env" by (simp add: ex_defs)
  have h4: "location_label (event ?ctx) = Some (from_address (transaction ?ctx))"
    by (simp add: ex_defs)
  have h5: "event_type (event ?ctx) = RECEIVE" by (simp add: ex_defs)
  have h6: "event_subtype (event ?ctx) = NONE" by (simp add: ex_defs)
  have h7: "resolve_to_crypto_asset ex_env (asset (event ?ctx)) = Inl WrongAssetType"
    by (simp add: ex_defs)
  have ev: "event ?ctx = ?ev" by (simp add: ex_defs)
  have r: "resolve_to_crypto_asset ex_env ''_nft_'' = Inl WrongAssetType" by (simp add: ex_defs)
  from enrichment_raises_on_unresolved_asset [OF h1 h2 h3 h4 h5 h6 h7] r
  show ?thesis unfolding ev by blast
qed

text \<open>
  Claim C8 as stated fails twice. With the four conditions true and an asset the resolver
  does not know, the rule raises and the event is not reclassified; on a log without
  topics the first condition cannot hold, and the rule raises \<^verbatim>\<open>IndexError\<close> instead of
  returning the default output.
\<close>

theorem enrichment_contract_counterexample:
  "topics (tx_log (ex_enrich_ctx [word32 [9], word32 [7], word32 [5]]
        (ex_event RECEIVE ''GHOST'' 1 (Some ''0xAbra'') (Some ''0xUser'')))) ! 0
     = ERC20_OR_ERC721_TRANSFER ex_env \<and>
   topics (tx_log (ex_enrich_ctx [word32 [9], word32 [7], word32 [5]]
        (ex_event RECEIVE ''GHOST'' 1 (Some ''0xAbra'') (Some ''0xUser'')))) ! 1
     \<in> CONVEX_ABRAS_HEX ex_env \<and>
   location_label (ex_event RECEIVE ''GHOST'' 1 (Some ''0xAbra'') (Some ''0xUser'')) = Some ''0xUser'' \<and>
   event_type (ex_event RECEIVE ''GHOST'' 1 (Some ''0xAbra'') (Some ''0xUser'')) = RECEIVE \<and>
   event_subtype (ex_event RECEIVE ''GHOST'' 1 (Some ''0xAbra'') (Some ''0xUser'')) = NONE \<and>
   maybe_enrich_convex_transfers ex_env
     (ex_enrich_ctx [word32 [9], word32 [7], word32 [5]]
        (ex_event RECEIVE ''GHOST'' 1 (Some ''0xAbra'') (Some ''0xUser''))) =
     (Raised (AssetError UnknownAsset),
      ex_event RECEIVE ''GHOST'' 1 (Some ''0xAbra'') (Some ''0xUser'')) \<and>
   maybe_enrich_convex_transfers ex_env
     (ex_enrich_ctx [] (ex_event RECEIVE ''USDC'' 1 (Some ''0xAbra'') (Some ''0xUser''))) =
     (Raised IndexError, ex_event RECEIVE ''USDC'' 1 (Some ''0xAbra'') (Some ''0xUser''))"
  by (simp add: maybe_enrich_convex_transfers_def ex_defs)

theorem enrichment_contract_witness:
  "maybe_enrich_convex_transfers ex_env
     (ex_enrich_ctx [word32 [9], word32 [7], word32 [5]]
        (ex_event RECEIVE ''USDC'' 1 (Some ''0xAbra'') (Some ''0xUser''))) =
     (Returned DEFAULT_ENRICHMENT_OUTPUT,
      \<lparr>event_type = RECEIVE, event_subtype = REWARD, asset = ''USDC'', balance_amount = 1,
       address = Some ''0xAbra'', location_label = Some ''0xUser'',
       event_notes = Some ''Claim 1 USDC reward from convex'',
       counterparty = Some ''convex''\<rparr>) \<and>
   maybe_enrich_convex_transfers ex_env
     (ex_enrich_ctx [word32 [9], word32 [8], word32 [5]]
        (ex_event RECEIVE ''USDC'' 1 (Some ''0xAbra'') (Some ''0xUser''))) =
     (Returned DEFAULT_ENRICHMENT_OUTPUT,
      ex_event RECEIVE ''USDC'' 1 (Some ''0xAbra'') (Some ''0xUser''))"
proof -
  let ?ev = "ex_event RECEIVE ''USDC'' 1 (Some ''0xAbra'') (Some ''0xUser'')"
  let ?ctx = "ex_enrich_ctx [word32 [9], word32 [7], word32 [5]] ?ev"
  let ?ctx' = "ex_enrich_ctx [word32 [9], word32 [8], word32 [5]] ?ev"
  have a: "maybe_enrich_convex_transfers ex_env ?ctx =
      (Returned DEFAULT_ENRICHMENT_OUTPUT,
       (event ?ctx)\<lparr>event_subtype := REWARD,
          event_notes := Some (convex_note ex_env (log_address (tx_log ?ctx)) ''Claim''
                                 (event ?ctx) usdc ''reward from convex''),
          counterparty := Some (CPT_CONVEX ex_env)\<rparr>)"
    using enrichment_contract [of ?ctx ex_env] by (simp add: ex_defs)
  have b: "maybe_enrich_convex_transfers ex_env ?ctx' =
      (Returned DEFAULT_ENRICHMENT_OUTPUT, event ?ctx')"
    using enrichment_contract [of ?ctx' ex_env] by (simp add: ex_defs)
  show ?thesis
    by (simp add: a b) (simp add: ex_defs convex_note_def)
qed

section \<open>Properties of the migration manager\<close>

lemma run_selected_first_raise:
  "apply_all pre (db s) = Some d \<Longrightarrow> migration_function r d = Inl message \<Longrightarrow>
   run_selected (pre @ r # post) s =
     s\<lparr>last_data_migration := (if pre = [] then last_data_migration s else Some (version (last pre))),
       errors := errors s @ [migration_error_text (version r) message],
       invoked := invoked s @ map version pre @ [version r],
       db := d\<rparr>"
proof (induction pre arbitrary: s)
  case Nil
  then show ?case by simp
next
  case (Cons p pre)
  from Cons.prems(1) obtain d1 where d1: "migration_function p (db s) = Inr d1"
    and rest: "apply_all pre d1 = Some d"
    by (auto split: sum.splits)
  let ?s1 = "s\<lparr>last_data_migration := Some (version p), invoked := invoked s @ [version p], db := d1\<rparr>"
  have "apply_all pre (db ?s1) = Some d" using rest by simp
  from Cons.IH [OF this Cons.prems(2)] show ?case
    by (simp add: d1)
qed

lemmas migration_ex_defs = ok_migration_def botched_migration_def ex_state_def
  selected_migrations_def registry9_def

text \<open>
  Claim C4 (failure isolation). When the functions of the selected records before \<open>r\<close>
  return and the function of \<open>r\<close> raises with \<open>message\<close>, the state after the call is the
  state before it with: exactly one more error, the text
  \<^verbatim>\<open>Failed to run soft data migration to version {v} due to {message}\<close>; the calls of the
  records up to \<open>r\<close> and of no record after it; the marker at the version of the last
  record that returned, or as it was when none did; the database as the last function
  that returned left it.
\<close>
theorem failed_migration_isolated:
  assumes sel: "selected_migrations (last_data_migration s) migration_list = pre @ r # post"
    and pre_return: "apply_all pre (db s) = Some d"
    and raises: "migration_function r d = Inl message"
  shows "maybe_migrate_data registered migration_list s =
     s\<lparr>last_data_migration :=
          (if pre = [] then last_data_migration s else Some (version (last pre))),
       errors := errors s @
          [''Failed to run soft data migration to version '' @ str_int (version r)
             @ '' due to '' @ message],
       invoked := invoked s @ map version pre @ [version r],
       db := d\<rparr>"
  using sel
  by (simp add: maybe_migrate_data_def Let_def run_selected_first_raise [OF pre_return raises]
      migration_error_text_def)

theorem failed_migration_isolated_witness:
  "maybe_migrate_data registry9 [ok_migration 1, botched_migration 2, ok_migration 3] (ex_state (Some 0)) =
     \<lparr>last_data_migration = Some 1,
      errors = [''Failed to run soft data migration to version 2 due to ngmi''],
      invoked = [1, 2], db = 1\<rparr> \<and>
   maybe_migrate_data registry9 [botched_migration 1] (ex_state (Some 0)) =
     \<lparr>last_data_migration = Some 0,
      errors = [''Failed to run soft data migration to version 1 due to ngmi''],
      invoked = [1], db = 0\<rparr>"
proof -
  have s1: "selected_migrations (last_data_migration (ex_state (Some 0)))
              [ok_migration 1, botched_migration 2, ok_migration 3]
            = [ok_migration 1] @ botched_migration 2 # [ok_migration 3]"
    by (simp add: migration_ex_defs)
  have a1: "apply_all [ok_migration 1] (db (ex_state (Some 0))) = Some 1"
    by (simp add: migration_ex_defs)
  have r1: "migration_function (botched_migration 2) 1 = Inl ''ngmi''"
    by (simp add: botched_migration_def)
  have s2: "selected_migrations (last_data_migration (ex_state (Some 0))) [botched_migration 1]
            = [] @ botched_migration 1 # []"
    by (simp add: migration_ex_defs)
  have a2: "apply_all [] (db (ex_state (Some 0))) = Some 0"
    by (simp add: migration_ex_defs)
  have r2: "migration_function (botched_migration 1) 0 = Inl ''ngmi''"
    by (simp add: botched_migration_def)
  have str: "str_int 1 = ''1''" "str_int 2 = ''2''"
    by (simp_all add: str_int_def str_nat.simps digit_char_def)
  show ?thesis
    using failed_migration_isolated [OF s1 a1 r1, of registry9]
      failed_migration_isolated [OF s2 a2 r2, of registry9]
    by (simp add: str ok_migration_def botched_migration_def ex_state_def)
qed

text \<open>
  Claim C7 (fresh database). When the marker is absent and the selection is empty, the
  call sets the marker to the highest version among the registered migrations, changes
  nothing else and calls no migration function.
\<close>
theorem fresh_database_initialization:
  assumes absent: "last_data_migration s = None"
    and none_selected: "selected_migrations None migration_list = []"
    and registry: "registered \<noteq> []"
  shows "maybe_migrate_data registered migration_list s =
           s\<lparr>last_data_migration := Some (Max (set (map version registered)))\<rparr> \<and>
         invoked (maybe_migrate_data registered migration_list s) = invoked s"
  using absent none_selected
  by (simp add: maybe_migrate_data_def highest_version_def Let_def)

theorem fresh_database_initialization_witness:
  "maybe_migrate_data
     [ok_migration 1, ok_migration 2, ok_migration 3, ok_migration 4, ok_migration 5] []
     (ex_state None) =
     \<lparr>last_data_migration = Some 5, errors = [], invoked = [], db = 0\<rparr>"
proof -
  have h1: "last_data_migration (ex_state None) = None" by (simp add: ex_state_def)
  have h2: "selected_migrations None ([] :: nat MigrationRecord list) = []"
    by (simp add: selected_migrations_def)
  have h3: "[ok_migration 1, ok_migration 2, ok_migration 3, ok_migration 4, ok_migration 5] \<noteq> []"
    by simp
  show ?thesis
    using fresh_database_initialization [OF h1 h2 h3]
    by (simp add: ok_migration_def ex_state_def)
qed

end
